theory Spec2Isabelle
  imports Complex_Main "HOL-Library.Multiset"
begin

section \<open>Vehicle damage detection: the analysis handler, the batch loops and the aggregators\<close>

text \<open>
  The development embeds three pieces of the repository:
  \<^item> the parse stage and the responses of the edge function
    \<^verbatim>\<open>supabase/functions/analyze-damage/index.ts\<close>;
  \<^item> the sequential loops \<^verbatim>\<open>analyzeAllImages\<close> and \<^verbatim>\<open>analyzeAllFrames\<close> of
    \<^verbatim>\<open>src/components/DemoSection.tsx\<close>, as functions on an explicit component state;
  \<^item> the aggregators \<^verbatim>\<open>combineImageResults\<close> and \<^verbatim>\<open>combineFrameResults\<close> of the same
    file.
\<close>

subsection \<open>JavaScript values used by the code\<close>

text \<open>
  Numbers that come out of a JSON payload are modelled as \<open>int\<close>. The aggregators can also
  produce \<^verbatim>\<open>-Infinity\<close> (\<^verbatim>\<open>Math.max()\<close> of no arguments) and \<^verbatim>\<open>NaN\<close> (\<^verbatim>\<open>0 / 0\<close>), so
  their numeric outputs have the type \<open>jsnum\<close>.
\<close>

datatype jsnum = Num int | NegInfinity | NaN

text \<open>\<^verbatim>\<open>Math.max(...xs)\<close>: \<^verbatim>\<open>-Infinity\<close> for no arguments, the largest argument otherwise.\<close>

fun Math_max :: "int list \<Rightarrow> jsnum" where
  "Math_max [] = NegInfinity"
| "Math_max (x # xs) = Num (fold max xs x)"

text \<open>
  \<^verbatim>\<open>Math.round(s / n)\<close> for an integer sum \<open>s\<close> and a length \<open>n\<close>: \<^verbatim>\<open>0 / 0\<close> is \<^verbatim>\<open>NaN\<close>;
  otherwise the quotient is rounded to the nearest integer, halves towards plus infinity,
  that is \<open>\<lfloor>s / n + 1 / 2\<rfloor>\<close>.
\<close>

definition Math_round_div :: "int \<Rightarrow> nat \<Rightarrow> jsnum" where
  "Math_round_div s n = (if n = 0 then NaN else Num ((2 * s + int n) div (2 * int n)))"

text \<open>The JavaScript relation \<^verbatim>\<open><=\<close> on these numbers: every comparison with \<^verbatim>\<open>NaN\<close> is false.\<close>

fun js_le :: "jsnum \<Rightarrow> jsnum \<Rightarrow> bool" where
  "js_le NaN _ = False"
| "js_le _ NaN = False"
| "js_le NegInfinity _ = True"
| "js_le (Num a) NegInfinity = False"
| "js_le (Num a) (Num b) = (a \<le> b)"

text \<open>\<^verbatim>\<open>x || 0\<close> on a number: \<^verbatim>\<open>0\<close> is the only falsy integer.\<close>

definition or_zero :: "int \<Rightarrow> int" where
  "or_zero x = (if x = 0 then 0 else x)"

text \<open>Template-literal rendering of a non-negative integer.\<close>

definition digit_char :: "nat \<Rightarrow> char" where
  "digit_char d = ''0123456789'' ! d"

fun string_of_nat :: "nat \<Rightarrow> string" where
  "string_of_nat n =
     (if n < 10 then [digit_char n]
      else string_of_nat (n div 10) @ [digit_char (n mod 10)])"

declare string_of_nat.simps [simp del]

text \<open>\<^verbatim>\<open>xs.join(sep)\<close> on an array of strings.\<close>

fun join :: "string \<Rightarrow> string list \<Rightarrow> string" where
  "join sep [] = []"
| "join sep [x] = x"
| "join sep (x # y # ys) = x @ sep @ join sep (y # ys)"

text \<open>
  \<^verbatim>\<open>[...new Set(xs)]\<close>: a \<^verbatim>\<open>Set\<close> keeps insertion order and ignores a value it already
  holds, so the first occurrence of every value survives, in order.
\<close>

definition new_Set :: "'a list \<Rightarrow> 'a list" where
  "new_Set xs = fold (\<lambda>x acc. if x \<in> set acc then acc else acc @ [x]) xs []"

text \<open>\<^verbatim>\<open>xs.find(p)\<close>: the first element that satisfies \<open>p\<close>, \<^verbatim>\<open>undefined\<close> if there is none.\<close>

fun find_first :: "('a \<Rightarrow> bool) \<Rightarrow> 'a list \<Rightarrow> 'a option" where
  "find_first p [] = None"
| "find_first p (x # xs) = (if p x then Some x else find_first p xs)"

subsection \<open>The data contracts of \<^verbatim>\<open>DemoSection.tsx\<close>\<close>

datatype DamageSeverity = DMinor | DModerate | DSevere

datatype Severity = SevNone | Minor | Moderate | Severe

record DamageItem =
  damage_type :: string
  location :: string
  severity :: DamageSeverity
  description :: string

record 'n RepairCost =
  cost_min :: 'n
  cost_max :: 'n
  currency :: string

record AnalysisResult =
  hasVehicle :: bool
  hasDamage :: bool
  overallSeverity :: Severity
  confidenceScore :: int
  damages :: "DamageItem list"
  affectedAreas :: "string list"
  estimatedRepairCost :: "int RepairCost"
  recommendations :: "string list"
  summary :: string
  annotatedImage :: "string option"

subsection \<open>The edge function \<^verbatim>\<open>analyze-damage\<close>\<close>

text \<open>
  Strings are lists of 8-bit characters. \<open>js_space\<close> is the JavaScript class \<^verbatim>\<open>\s\<close> (and
  the set \<^verbatim>\<open>trim\<close> removes) restricted to the code units below 256: tab, line feed,
  vertical tab, form feed, carriage return, space and no-break space.
\<close>

definition js_space :: "char \<Rightarrow> bool" where
  "js_space c = (c \<in> set [CHR 0x09, CHR 0x0A, CHR 0x0B, CHR 0x0C, CHR 0x0D, CHR 0x20, CHR 0xA0])"

definition trim :: "string \<Rightarrow> string" where
  "trim s = rev (dropWhile js_space (rev (dropWhile js_space s)))"

text \<open>
  \<open>split_fence s\<close> finds the first occurrence of three backticks in \<open>s\<close> and returns the
  text before it and the text after it.
\<close>

fun split_fence :: "string \<Rightarrow> (string \<times> string) option" where
  "split_fence [] = None"
| "split_fence (c # cs) =
     (if take 3 (c # cs) = ''```'' then Some ([], drop 3 (c # cs))
      else (case split_fence cs of
              None \<Rightarrow> None
            | Some (before, after) \<Rightarrow> Some (c # before, after)))"

text \<open>
  \<^verbatim>\<open>aiResponse.match(/```(?:json)?\s*([\s\S]*?)```/)\<close>, reduced to its capture group. The
  match starts at the first fence; the greedy \<^verbatim>\<open>(?:json)?\<close> and \<^verbatim>\<open>\s*\<close> consume a language
  tag and white space, and the lazy group runs to the next fence. Neither the tag nor white
  space holds a backtick, so backtracking finds no closing fence that the greedy reading
  misses, and a later start cannot match when the first one does not.
\<close>

definition jsonMatch :: "string \<Rightarrow> string option" where
  "jsonMatch aiResponse =
     (case split_fence aiResponse of
        None \<Rightarrow> None
      | Some (before, rest) \<Rightarrow>
          (let rest1 = (if take 4 rest = ''json'' then drop 4 rest else rest);
               rest2 = dropWhile js_space rest1
           in case split_fence rest2 of
                None \<Rightarrow> None
              | Some (inner, after) \<Rightarrow> Some inner))"

definition jsonStr :: "string \<Rightarrow> string" where
  "jsonStr aiResponse =
     (case jsonMatch aiResponse of None \<Rightarrow> aiResponse | Some inner \<Rightarrow> trim inner)"

text \<open>The object assigned in the \<^verbatim>\<open>catch (parseError)\<close> branch (lines 164 to 174).\<close>

definition parseFallback :: AnalysisResult where
  "parseFallback =
     \<lparr> hasVehicle = False,
       hasDamage = False,
       overallSeverity = SevNone,
       confidenceScore = 0,
       damages = [],
       affectedAreas = [],
       estimatedRepairCost = \<lparr> cost_min = 0, cost_max = 0, currency = ''USD'' \<rparr>,
       recommendations = [''Unable to analyze image. Please try with a clearer image.''],
       summary = ''Could not process the image. Please upload a clear image.'',
       annotatedImage = None \<rparr>"

text \<open>
  The parse stage (lines 153 to 175). \<open>JSON_parse\<close> stands for the library function
  \<^verbatim>\<open>JSON.parse\<close> read at the shape the handler consumes: \<open>None\<close> is a thrown
  \<^verbatim>\<open>SyntaxError\<close>. The message content \<open>aiResponse\<close> is \<open>None\<close> when
  \<^verbatim>\<open>choices?.[0]?.message?.content\<close> is \<^verbatim>\<open>undefined\<close>; then \<^verbatim>\<open>aiResponse.match\<close> throws
  inside the same \<^verbatim>\<open>try\<close> block and the same \<^verbatim>\<open>catch\<close> branch runs.
\<close>

definition parseAnalysis ::
  "(string \<Rightarrow> AnalysisResult option) \<Rightarrow> string option \<Rightarrow> AnalysisResult" where
  "parseAnalysis JSON_parse aiResponse =
     (case aiResponse of
        None \<Rightarrow> parseFallback
      | Some s \<Rightarrow>
          (case JSON_parse (jsonStr s) of
             None \<Rightarrow> parseFallback
           | Some r \<Rightarrow> r))"

text \<open>
  Step 2 (lines 177 to 252). \<open>annotate\<close> stands for the second model call: the URL of the
  edited image, or \<open>None\<close> when the call fails, throws or carries no image.
\<close>

definition annotationStep :: "(AnalysisResult \<Rightarrow> string option) \<Rightarrow> AnalysisResult \<Rightarrow> string option" where
  "annotationStep annotate analysisResult =
     (if hasVehicle analysisResult \<and> hasDamage analysisResult \<and> length (damages analysisResult) > 0
      then annotate analysisResult
      else None)"

datatype Request = Options | BadBody string | Body "string option"

datatype Gateway = GatewayStatus nat | GatewayBadJson string | GatewayOk "string option"

datatype ResponseBody = NoBody | ErrorJson string | ResultJson AnalysisResult

record Response =
  status :: nat
  body :: ResponseBody

text \<open>
  The whole handler. \<open>BadBody m\<close> is a request whose \<^verbatim>\<open>req.json()\<close> rejects with message
  \<open>m\<close>; \<open>Body b\<close> carries the field \<^verbatim>\<open>imageBase64\<close>. \<open>key\<close> is the environment variable.
  \<open>GatewayStatus n\<close> is a gateway answer with \<^verbatim>\<open>ok\<close> false and status \<open>n\<close>,
  \<open>GatewayBadJson m\<close> one whose \<^verbatim>\<open>json()\<close> rejects, \<open>GatewayOk c\<close> one whose first choice
  has content \<open>c\<close>. Every \<^verbatim>\<open>throw\<close> ends in the outer \<^verbatim>\<open>catch\<close>, a 500 with the message.
\<close>

definition falsy :: "string option \<Rightarrow> bool" where
  "falsy v = (case v of None \<Rightarrow> True | Some s \<Rightarrow> s = [])"

definition handler ::
  "(string \<Rightarrow> AnalysisResult option) \<Rightarrow> (AnalysisResult \<Rightarrow> string option) \<Rightarrow>
   Request \<Rightarrow> string option \<Rightarrow> Gateway \<Rightarrow> Response" where
  "handler JSON_parse annotate req key gateway =
     (case req of
        Options \<Rightarrow> \<lparr> status = 200, body = NoBody \<rparr>
      | BadBody m \<Rightarrow> \<lparr> status = 500, body = ErrorJson m \<rparr>
      | Body imageBase64 \<Rightarrow>
          if falsy imageBase64 then \<lparr> status = 400, body = ErrorJson ''No image provided'' \<rparr>
          else if falsy key
          then \<lparr> status = 500, body = ErrorJson ''LOVABLE_API_KEY is not configured'' \<rparr>
          else (case gateway of
                  GatewayStatus n \<Rightarrow>
                    if n = 429
                    then \<lparr> status = 429,
                           body = ErrorJson ''Rate limit exceeded. Please try again later.'' \<rparr>
                    else if n = 402
                    then \<lparr> status = 402,
                           body = ErrorJson ''AI credits exhausted. Please add more credits.'' \<rparr>
                    else \<lparr> status = 500,
                           body = ErrorJson (''AI Gateway error: '' @ string_of_nat n) \<rparr>
                | GatewayBadJson m \<Rightarrow> \<lparr> status = 500, body = ErrorJson m \<rparr>
                | GatewayOk aiResponse \<Rightarrow>
                    (let analysisResult = parseAnalysis JSON_parse aiResponse;
                         annotatedImage = annotationStep annotate analysisResult
                     in \<lparr> status = 200,
                          body = ResultJson (analysisResult\<lparr> annotatedImage := annotatedImage \<rparr>) \<rparr>)))"

subsection \<open>Results tagged with their position, and the combined report\<close>

record FrameAnalysisResult = AnalysisResult +
  frameIndex :: nat
  frameImage :: string

text \<open>\<^verbatim>\<open>{ ...data, frameIndex: i, frameImage: image }\<close>\<close>

definition withFrame :: "AnalysisResult \<Rightarrow> nat \<Rightarrow> string \<Rightarrow> FrameAnalysisResult" where
  "withFrame d i img = AnalysisResult.extend d (FrameAnalysisResult.fields i img)"

record TaggedDamage = DamageItem +
  frameIndex :: nat

text \<open>\<^verbatim>\<open>{ ...damage, frameIndex: i }\<close>\<close>

definition tagDamage :: "nat \<Rightarrow> DamageItem \<Rightarrow> TaggedDamage" where
  "tagDamage i damage = DamageItem.extend damage (TaggedDamage.fields i)"

record CombinedAnalysisResult =
  totalFramesAnalyzed :: nat
  framesWithDamage :: nat
  overallSeverity :: Severity
  averageConfidence :: jsnum
  allDamages :: "TaggedDamage list"
  uniqueDamageTypes :: "string list"
  affectedAreas :: "string list"
  estimatedRepairCost :: "jsnum RepairCost"
  recommendations :: "string list"
  summary :: string
  frameResults :: "FrameAnalysisResult list"

subsection \<open>The aggregators\<close>

text \<open>The object \<^verbatim>\<open>severityOrder\<close> and the rendering of a severity in a template literal.\<close>

fun severityOrder :: "Severity \<Rightarrow> nat" where
  "severityOrder SevNone = 0"
| "severityOrder Minor = 1"
| "severityOrder Moderate = 2"
| "severityOrder Severe = 3"

fun severity_text :: "Severity \<Rightarrow> string" where
  "severity_text SevNone = ''None''"
| "severity_text Minor = ''Minor''"
| "severity_text Moderate = ''Moderate''"
| "severity_text Severe = ''Severe''"

text \<open>The nested \<^verbatim>\<open>forEach\<close> that fills \<^verbatim>\<open>allDamages\<close> (lines 315 to 323, 442 to 450).\<close>

definition collectDamages :: "FrameAnalysisResult list \<Rightarrow> TaggedDamage list" where
  "collectDamages rs =
     fold (\<lambda>img acc.
             fold (\<lambda>damage acc'. acc' @ [tagDamage (FrameAnalysisResult.frameIndex img) damage])
                  (damages img) acc)
          rs []"

text \<open>The \<^verbatim>\<open>reduce\<close> that picks the highest severity, starting from \<^verbatim>\<open>"None"\<close>.\<close>

definition reduceSeverity :: "FrameAnalysisResult list \<Rightarrow> Severity" where
  "reduceSeverity rs =
     fold (\<lambda>img mx.
             if severityOrder (AnalysisResult.overallSeverity img) > severityOrder mx
             then AnalysisResult.overallSeverity img else mx)
          rs SevNone"

text \<open>
  \<^verbatim>\<open>rs.find(f => f.estimatedRepairCost?.currency)?.estimatedRepairCost?.currency || "INR"\<close>:
  the first currency that is a non-empty string.
\<close>

definition pickCurrency :: "FrameAnalysisResult list \<Rightarrow> string" where
  "pickCurrency rs =
     (case find_first (\<lambda>f. currency (AnalysisResult.estimatedRepairCost f) \<noteq> []) rs of
        None \<Rightarrow> ''INR''
      | Some f \<Rightarrow> currency (AnalysisResult.estimatedRepairCost f))"

definition combineImageResults :: "FrameAnalysisResult list \<Rightarrow> CombinedAnalysisResult" where
  "combineImageResults imageResults =
     (let imagesWithDamage = length (filter hasDamage imageResults);
          avgConfidence =
            Math_round_div (fold (\<lambda>f sum. sum + confidenceScore f) imageResults 0)
                           (length imageResults);
          allDamages = collectDamages imageResults;
          uniqueDamageTypes = new_Set (map damage_type allDamages);
          affectedAreas = new_Set (concat (map AnalysisResult.affectedAreas imageResults));
          overallSeverity = reduceSeverity imageResults;
          minCost = Math_max (map (\<lambda>f. or_zero (cost_min (AnalysisResult.estimatedRepairCost f)))
                                  imageResults);
          maxCost = Math_max (map (\<lambda>f. or_zero (cost_max (AnalysisResult.estimatedRepairCost f)))
                                  imageResults);
          currency = pickCurrency imageResults;
          recommendations = new_Set (concat (map AnalysisResult.recommendations imageResults));
          summary =
            ''Comprehensive analysis of '' @ string_of_nat (length imageResults) @
            '' images reveals '' @ string_of_nat imagesWithDamage @
            '' image(s) showing vehicle damage. '' @
            ''A total of '' @ string_of_nat (length allDamages) @
            '' damage instances were detected across '' @
            string_of_nat (length uniqueDamageTypes) @ '' damage type(s): '' @
            join '', '' uniqueDamageTypes @ ''. '' @
            ''Affected areas include: '' @ join '', '' affectedAreas @
            ''. Overall severity is assessed as '' @ severity_text overallSeverity @ ''.''
      in \<lparr> totalFramesAnalyzed = length imageResults,
           framesWithDamage = imagesWithDamage,
           overallSeverity = overallSeverity,
           averageConfidence = avgConfidence,
           allDamages = allDamages,
           uniqueDamageTypes = uniqueDamageTypes,
           affectedAreas = affectedAreas,
           estimatedRepairCost = \<lparr> cost_min = minCost, cost_max = maxCost, currency = currency \<rparr>,
           recommendations = recommendations,
           summary = summary,
           frameResults = imageResults \<rparr>)"

definition combineFrameResults :: "FrameAnalysisResult list \<Rightarrow> CombinedAnalysisResult" where
  "combineFrameResults frameResults' =
     (let framesWithDamage = length (filter hasDamage frameResults');
          avgConfidence =
            Math_round_div (fold (\<lambda>f sum. sum + confidenceScore f) frameResults' 0)
                           (length frameResults');
          allDamages = collectDamages frameResults';
          uniqueDamageTypes = new_Set (map damage_type allDamages);
          affectedAreas = new_Set (concat (map AnalysisResult.affectedAreas frameResults'));
          overallSeverity = reduceSeverity frameResults';
          minCost = Math_max (map (\<lambda>f. or_zero (cost_min (AnalysisResult.estimatedRepairCost f)))
                                  frameResults');
          maxCost = Math_max (map (\<lambda>f. or_zero (cost_max (AnalysisResult.estimatedRepairCost f)))
                                  frameResults');
          currency = pickCurrency frameResults';
          recommendations = new_Set (concat (map AnalysisResult.recommendations frameResults'));
          summary =
            ''Comprehensive analysis of '' @ string_of_nat (length frameResults') @
            '' video frames reveals '' @ string_of_nat framesWithDamage @
            '' frame(s) showing vehicle damage. '' @
            ''A total of '' @ string_of_nat (length allDamages) @
            '' damage instances were detected across '' @
            string_of_nat (length uniqueDamageTypes) @ '' damage type(s): '' @
            join '', '' uniqueDamageTypes @ ''. '' @
            ''Affected areas include: '' @ join '', '' affectedAreas @
            ''. Overall severity is assessed as '' @ severity_text overallSeverity @ ''.''
      in \<lparr> totalFramesAnalyzed = length frameResults',
           framesWithDamage = framesWithDamage,
           overallSeverity = overallSeverity,
           averageConfidence = avgConfidence,
           allDamages = allDamages,
           uniqueDamageTypes = uniqueDamageTypes,
           affectedAreas = affectedAreas,
           estimatedRepairCost = \<lparr> cost_min = minCost, cost_max = maxCost, currency = currency \<rparr>,
           recommendations = recommendations,
           summary = summary,
           frameResults = frameResults' \<rparr>)"

subsection \<open>The batch loops\<close>

text \<open>
  The React component state that the two loops read and write, with the notices shown by
  \<^verbatim>\<open>toast\<close> and the lines written by \<^verbatim>\<open>console.error\<close> kept as lists in order of emission.
  \<open>analysisProgress\<close> is the exact quotient; the source computes it in floating point.
\<close>

datatype Variant = Default | Destructive

record Toast =
  title :: string
  toast_description :: string
  variant :: Variant

record State =
  uploadedImages :: "string list"
  videoFrames :: "string list"
  isAnalyzingAllFrames :: bool
  isAnalyzingAllImages :: bool
  analysisProgress :: real
  currentAnalyzingFrame :: nat
  results :: "AnalysisResult option"
  combinedResults :: "CombinedAnalysisResult option"
  toasts :: "Toast list"
  console :: "(string \<times> string) list"

text \<open>
  What \<^verbatim>\<open>supabase.functions.invoke\<close> resolves to: \<open>error\<close> is set when the function
  answered with a status outside 2xx or could not be reached; \<open>data\<close> is the parsed body,
  either an object with a truthy \<^verbatim>\<open>error\<close> field or an analysis result. The library call
  returns its failures in \<open>error\<close> and does not throw, so the \<^verbatim>\<open>catch\<close> block of the loops
  has no branch here.
\<close>

datatype Payload = ErrorPayload string | ResultPayload AnalysisResult

record InvokeResult =
  data :: "Payload option"
  error :: "string option"

text \<open>
  One iteration of the \<^verbatim>\<open>for\<close> loop (lines 254 to 275 and 381 to 402), for the unit at
  position \<open>i\<close>. The two loops differ in the array they read and in one word of the logged
  line, here \<open>noun\<close>. \<open>invoke i img\<close> is the outcome of the \<open>i\<close>-th call. The loop runs
  \<open>i\<close> below \<open>length units\<close> only, so \<open>units ! i\<close> is in range.
\<close>

fun analyzeUnit ::
  "string \<Rightarrow> string list \<Rightarrow> (nat \<Rightarrow> string \<Rightarrow> InvokeResult) \<Rightarrow> nat \<Rightarrow>
   State \<times> FrameAnalysisResult list \<Rightarrow> State \<times> FrameAnalysisResult list" where
  "analyzeUnit noun units invoke i (st, unitResults) =
     (let st1 = st\<lparr> currentAnalyzingFrame := i + 1 \<rparr>;
          res = invoke i (units ! i)
      in case error res of
           Some e \<Rightarrow>
             (st1\<lparr> console := console st1 @
                      [(''Error analyzing '' @ noun @ '' '' @ string_of_nat (i + 1) @ '':'', e)] \<rparr>,
              unitResults)
         | None \<Rightarrow>
             (st1\<lparr> analysisProgress := (real (i + 1) / real (length units)) * 100 \<rparr>,
              (case data res of
                 Some (ResultPayload d) \<Rightarrow> unitResults @ [withFrame d i (units ! i)]
               | _ \<Rightarrow> unitResults)))"

text \<open>The state and the collected results after the first \<open>n\<close> iterations.\<close>

definition analyzeLoop ::
  "string \<Rightarrow> string list \<Rightarrow> (nat \<Rightarrow> string \<Rightarrow> InvokeResult) \<Rightarrow> nat \<Rightarrow>
   State \<Rightarrow> State \<times> FrameAnalysisResult list" where
  "analyzeLoop noun units invoke n st = fold (analyzeUnit noun units invoke) [0..<n] (st, [])"

definition analyzeAllImages :: "(nat \<Rightarrow> string \<Rightarrow> InvokeResult) \<Rightarrow> State \<Rightarrow> State" where
  "analyzeAllImages invoke st =
     (if length (uploadedImages st) = 0 then st
      else
        let st0 = st\<lparr> isAnalyzingAllImages := True, analysisProgress := 0,
                      currentAnalyzingFrame := 0, combinedResults := None, results := None \<rparr>;
            (st1, imageResults) =
              analyzeLoop ''image'' (uploadedImages st) invoke (length (uploadedImages st)) st0;
            st2 =
              (if length imageResults = 0
               then st1\<lparr> toasts := toasts st1 @
                          [\<lparr> title = ''Analysis Failed'',
                             toast_description = ''Could not analyze any images. Please try again.'',
                             variant = Destructive \<rparr>] \<rparr>
               else
                 let combined = combineImageResults imageResults
                 in st1\<lparr> combinedResults := Some combined,
                         toasts := toasts st1 @
                          [\<lparr> title = ''Comprehensive Analysis Complete'',
                             toast_description =
                               ''Analyzed '' @ string_of_nat (length imageResults) @
                               '' images. Found '' @ string_of_nat (length (allDamages combined)) @
                               '' total damage instances.'',
                             variant = Default \<rparr>] \<rparr>)
        in st2\<lparr> isAnalyzingAllImages := False, analysisProgress := 0,
                currentAnalyzingFrame := 0 \<rparr>)"

definition analyzeAllFrames :: "(nat \<Rightarrow> string \<Rightarrow> InvokeResult) \<Rightarrow> State \<Rightarrow> State" where
  "analyzeAllFrames invoke st =
     (if length (videoFrames st) = 0 then st
      else
        let st0 = st\<lparr> isAnalyzingAllFrames := True, analysisProgress := 0,
                      currentAnalyzingFrame := 0, combinedResults := None, results := None \<rparr>;
            (st1, frameResults') =
              analyzeLoop ''frame'' (videoFrames st) invoke (length (videoFrames st)) st0;
            st2 =
              (if length frameResults' = 0
               then st1\<lparr> toasts := toasts st1 @
                          [\<lparr> title = ''Analysis Failed'',
                             toast_description = ''Could not analyze any frames. Please try again.'',
                             variant = Destructive \<rparr>] \<rparr>
               else
                 let combined = combineFrameResults frameResults'
                 in st1\<lparr> combinedResults := Some combined,
                         toasts := toasts st1 @
                          [\<lparr> title = ''Comprehensive Analysis Complete'',
                             toast_description =
                               ''Analyzed '' @ string_of_nat (length frameResults') @
                               '' frames. Found '' @ string_of_nat (length (allDamages combined)) @
                               '' total damage instances.'',
                             variant = Default \<rparr>] \<rparr>)
        in st2\<lparr> isAnalyzingAllFrames := False, analysisProgress := 0,
                currentAnalyzingFrame := 0 \<rparr>)"

subsection \<open>Vocabulary for the outcome of one unit\<close>

text \<open>
  The properties of the loops are stated with three readings of the \<open>i\<close>-th call:
  \<open>unitError\<close> is its \<open>error\<close> field (the per-unit failure that the loop logs),
  \<open>unitData\<close> is the analysis result it delivered, if any, and \<open>succeededUnits\<close> lists
  the positions that delivered one.
\<close>

definition unitError :: "(nat \<Rightarrow> string \<Rightarrow> InvokeResult) \<Rightarrow> string list \<Rightarrow> nat \<Rightarrow> string option" where
  "unitError invoke units i = error (invoke i (units ! i))"

definition unitData :: "(nat \<Rightarrow> string \<Rightarrow> InvokeResult) \<Rightarrow> string list \<Rightarrow> nat \<Rightarrow> AnalysisResult option" where
  "unitData invoke units i =
     (case error (invoke i (units ! i)) of
        Some e \<Rightarrow> None
      | None \<Rightarrow> (case data (invoke i (units ! i)) of
                   Some (ResultPayload d) \<Rightarrow> Some d
                 | _ \<Rightarrow> None))"

definition succeededUnits :: "(nat \<Rightarrow> string \<Rightarrow> InvokeResult) \<Rightarrow> string list \<Rightarrow> nat list" where
  "succeededUnits invoke units = filter (\<lambda>i. unitData invoke units i \<noteq> None) [0..<length units]"

text \<open>The line that \<^verbatim>\<open>console.error\<close> writes for unit \<open>i\<close>, and the entry that unit \<open>i\<close> adds.\<close>

definition unitLog :: "string \<Rightarrow> (nat \<Rightarrow> string \<Rightarrow> InvokeResult) \<Rightarrow> string list \<Rightarrow> nat \<Rightarrow> (string \<times> string) list" where
  "unitLog noun invoke units i =
     (case unitError invoke units i of
        None \<Rightarrow> []
      | Some e \<Rightarrow> [(''Error analyzing '' @ noun @ '' '' @ string_of_nat (i + 1) @ '':'', e)])"

definition unitContext :: "(nat \<Rightarrow> string \<Rightarrow> InvokeResult) \<Rightarrow> string list \<Rightarrow> nat \<Rightarrow> FrameAnalysisResult list" where
  "unitContext invoke units i =
     (case unitData invoke units i of
        None \<Rightarrow> []
      | Some d \<Rightarrow> [withFrame d i (units ! i)])"

text \<open>The notice of lines 278 to 282 and 405 to 409.\<close>

definition failureToast :: "string \<Rightarrow> Toast" where
  "failureToast noun =
     \<lparr> title = ''Analysis Failed'',
       toast_description = ''Could not analyze any '' @ noun @ ''s. Please try again.'',
       variant = Destructive \<rparr>"

subsection \<open>Sample inputs\<close>

text \<open>Concrete values on which the theorems below are instantiated.\<close>

definition sampleDamage :: "string \<Rightarrow> string \<Rightarrow> DamageSeverity \<Rightarrow> DamageItem" where
  "sampleDamage kind place sev =
     \<lparr> damage_type = kind, location = place, severity = sev, description = kind @ '' on '' @ place \<rparr>"

definition sampleResult :: "Severity \<Rightarrow> int \<Rightarrow> int \<Rightarrow> DamageItem list \<Rightarrow> AnalysisResult" where
  "sampleResult sev lo hi ds =
     \<lparr> hasVehicle = True,
       hasDamage = (ds \<noteq> []),
       AnalysisResult.overallSeverity = sev,
       confidenceScore = 90,
       damages = ds,
       AnalysisResult.affectedAreas = map location ds,
       AnalysisResult.estimatedRepairCost = \<lparr> cost_min = lo, cost_max = hi, currency = ''INR'' \<rparr>,
       AnalysisResult.recommendations = [''Visit a body shop.''],
       AnalysisResult.summary = ''Sample.'',
       annotatedImage = None \<rparr>"

definition scratchResult :: AnalysisResult where
  "scratchResult = sampleResult Minor 5000 25000 [sampleDamage ''scratch'' ''left door'' DMinor]"

definition dentResult :: AnalysisResult where
  "dentResult = sampleResult Severe 25000 100000 [sampleDamage ''dent'' ''hood'' DSevere]"

definition cleanResult :: AnalysisResult where
  "cleanResult = sampleResult SevNone 0 0 []"

definition sampleUnits :: "FrameAnalysisResult list" where
  "sampleUnits = [withFrame cleanResult 0 ''img0'', withFrame scratchResult 1 ''img1'', withFrame dentResult 2 ''img2'']"

definition costUnits :: "FrameAnalysisResult list" where
  "costUnits = [withFrame scratchResult 0 ''img0'', withFrame dentResult 1 ''img1'']"

definition sampleState :: "string list \<Rightarrow> State" where
  "sampleState units =
     \<lparr> uploadedImages = units, videoFrames = units,
       isAnalyzingAllFrames = False, isAnalyzingAllImages = False,
       analysisProgress = 0, currentAnalyzingFrame = 0,
       results = None, combinedResults = None, toasts = [], console = [] \<rparr>"

definition failingAt :: "nat list \<Rightarrow> AnalysisResult \<Rightarrow> nat \<Rightarrow> string \<Rightarrow> InvokeResult" where
  "failingAt bad r i img =
     (if i \<in> set bad
      then \<lparr> data = None, error = Some ''Edge Function returned a non-2xx status code'' \<rparr>
      else \<lparr> data = Some (ResultPayload r), error = None \<rparr>)"

definition partialBatch :: "FrameAnalysisResult list" where
  "partialBatch =
     snd (analyzeLoop ''image'' [''img0'', ''img1'']
            (failingAt [0] scratchResult)
            2 (sampleState [''img0'', ''img1'']))"

definition sampleJSON_parse :: "string \<Rightarrow> AnalysisResult option" where
  "sampleJSON_parse s = (if take 1 s = ''{'' then Some scratchResult else None)"

section \<open>Properties\<close>

subsection \<open>The JavaScript helpers\<close>

lemma or_zero_id: "or_zero x = x"
  by (simp add: or_zero_def)

lemma Math_max_nonempty:
  assumes "xs \<noteq> []"
  shows "Math_max xs = Num (Max (set xs))"
proof (cases xs)
  case Nil
  with assms show ?thesis by simp
next
  case (Cons a list)
  have "fold max list a = Max (set (a # list))"
    by (simp only: Max.set_eq_fold)
  with Cons show ?thesis by simp
qed

lemma Max_image_mono:
  fixes f g :: "'a \<Rightarrow> int"
  assumes "finite S" "S \<noteq> {}" "\<forall>x\<in>S. f x \<le> g x"
  shows "Max (f ` S) \<le> Max (g ` S)"
proof -
  have "\<forall>y \<in> f ` S. y \<le> Max (g ` S)"
  proof
    fix y assume "y \<in> f ` S"
    then obtain x where x: "x \<in> S" "y = f x" by auto
    have "g x \<le> Max (g ` S)" using assms(1) x(1) by (intro Max_ge) auto
    with assms(3) x show "y \<le> Max (g ` S)" by force
  qed
  then show ?thesis using assms by (simp add: Max_le_iff)
qed

lemma inner_fold_snoc: "fold (\<lambda>d acc. acc @ [g d]) ds acc = acc @ map g ds"
  by (induction ds arbitrary: acc) simp_all

subsection \<open>Tagged records\<close>

lemma tagDamage_frameIndex: "TaggedDamage.frameIndex (tagDamage i d) = i"
  by (simp add: tagDamage_def DamageItem.defs TaggedDamage.defs)

lemma withFrame_fields:
  "FrameAnalysisResult.frameIndex (withFrame d i img) = i"
  "frameImage (withFrame d i img) = img"
  "damages (withFrame d i img) = damages d"
  by (simp_all add: withFrame_def AnalysisResult.defs FrameAnalysisResult.defs)

lemma withFrame_parent:
  "AnalysisResult.overallSeverity (withFrame d i img) = AnalysisResult.overallSeverity d"
  "AnalysisResult.estimatedRepairCost (withFrame d i img) = AnalysisResult.estimatedRepairCost d"
  by (simp_all add: withFrame_def AnalysisResult.defs FrameAnalysisResult.defs)

subsection \<open>The aggregators, field by field\<close>

lemma combineImageResults_cost_min:
  "cost_min (estimatedRepairCost (combineImageResults rs)) =
     Math_max (map (\<lambda>f. cost_min (AnalysisResult.estimatedRepairCost f)) rs)"
  by (simp add: combineImageResults_def Let_def or_zero_id)

lemma combineImageResults_cost_max:
  "cost_max (estimatedRepairCost (combineImageResults rs)) =
     Math_max (map (\<lambda>f. cost_max (AnalysisResult.estimatedRepairCost f)) rs)"
  by (simp add: combineImageResults_def Let_def or_zero_id)

lemma combineFrameResults_cost_min:
  "cost_min (estimatedRepairCost (combineFrameResults rs)) =
     Math_max (map (\<lambda>f. cost_min (AnalysisResult.estimatedRepairCost f)) rs)"
  by (simp add: combineFrameResults_def Let_def or_zero_id)

lemma combineFrameResults_cost_max:
  "cost_max (estimatedRepairCost (combineFrameResults rs)) =
     Math_max (map (\<lambda>f. cost_max (AnalysisResult.estimatedRepairCost f)) rs)"
  by (simp add: combineFrameResults_def Let_def or_zero_id)

lemma fold_reduce_rank:
  "severityOrder (fold (\<lambda>img mx.
             if severityOrder (AnalysisResult.overallSeverity img) > severityOrder mx
             then AnalysisResult.overallSeverity img else mx) rs m)
   = fold max (map (\<lambda>r. severityOrder (AnalysisResult.overallSeverity r)) rs) (severityOrder m)"
  by (induction rs arbitrary: m) (auto simp: max_def)

lemma reduceSeverity_rank:
  "rs \<noteq> [] \<Longrightarrow> severityOrder (reduceSeverity rs) =
     Max ((\<lambda>r. severityOrder (AnalysisResult.overallSeverity r)) ` set rs)"
proof -
  assume ne: "rs \<noteq> []"
  let ?xs = "map (\<lambda>r. severityOrder (AnalysisResult.overallSeverity r)) rs"
  have "severityOrder (reduceSeverity rs) = fold max ?xs 0"
    by (simp add: reduceSeverity_def fold_reduce_rank)
  also have "\<dots> = Max (set (0 # ?xs))"
    by (simp only: Max.set_eq_fold)
  also have "\<dots> = Max (set ?xs)"
    using ne by (simp add: max_def)
  finally show ?thesis by simp
qed

lemma severityOrder_inj: "severityOrder a = severityOrder b \<Longrightarrow> a = b"
  by (cases a; cases b) simp_all

lemma combine_severity:
  "overallSeverity (combineImageResults rs) = reduceSeverity rs"
  "overallSeverity (combineFrameResults rs) = reduceSeverity rs"
  by (simp_all add: combineImageResults_def combineFrameResults_def Let_def)

lemma reduceSeverity_mset:
  assumes "mset rs' = mset rs"
  shows "reduceSeverity rs' = reduceSeverity rs"
proof (cases "rs = []")
  case True
  with assms show ?thesis by simp
next
  case False
  from assms have s: "set rs' = set rs" by (rule mset_eq_setD)
  with False have "rs' \<noteq> []" by auto
  with False s show ?thesis
    by (intro severityOrder_inj) (simp add: reduceSeverity_rank)
qed

lemma reduceSeverity_mem:
  "rs \<noteq> [] \<Longrightarrow> reduceSeverity rs \<in> AnalysisResult.overallSeverity ` set rs"
proof -
  assume ne: "rs \<noteq> []"
  let ?S = "(\<lambda>r. severityOrder (AnalysisResult.overallSeverity r)) ` set rs"
  have "Max ?S \<in> ?S" using ne by (intro Max_in) auto
  moreover have "severityOrder (reduceSeverity rs) = Max ?S"
    using ne by (rule reduceSeverity_rank)
  ultimately have "severityOrder (reduceSeverity rs) \<in> ?S"
    by (rule ssubst[where P = "\<lambda>v. v \<in> ?S", rotated])
  then obtain r where r: "r \<in> set rs"
    "severityOrder (reduceSeverity rs) = severityOrder (AnalysisResult.overallSeverity r)"
    by (rule imageE)
  from r(2) have "reduceSeverity rs = AnalysisResult.overallSeverity r"
    by (rule severityOrder_inj)
  with r(1) show ?thesis by simp
qed

lemma collectDamages_fold:
  "fold (\<lambda>img acc. fold (\<lambda>damage acc'. acc' @ [tagDamage (FrameAnalysisResult.frameIndex img) damage])
                  (damages img) acc) rs acc0
   = acc0 @ concat (map (\<lambda>r. map (tagDamage (FrameAnalysisResult.frameIndex r)) (damages r)) rs)"
  by (induction rs arbitrary: acc0) (simp_all add: inner_fold_snoc)

lemma collectDamages_concat:
  "collectDamages rs = concat (map (\<lambda>r. map (tagDamage (FrameAnalysisResult.frameIndex r)) (damages r)) rs)"
  by (simp add: collectDamages_def collectDamages_fold)

lemma combine_allDamages:
  "allDamages (combineImageResults rs) = collectDamages rs"
  "allDamages (combineFrameResults rs) = collectDamages rs"
  by (simp_all add: combineImageResults_def combineFrameResults_def Let_def)

lemma combine_frameResults:
  "frameResults (combineImageResults rs) = rs"
  "frameResults (combineFrameResults rs) = rs"
  "totalFramesAnalyzed (combineImageResults rs) = length rs"
  "totalFramesAnalyzed (combineFrameResults rs) = length rs"
  by (simp_all add: combineImageResults_def combineFrameResults_def Let_def)

lemma length_collectDamages:
  "length (collectDamages rs) = sum_list (map (\<lambda>r. length (damages r)) rs)"
  by (simp add: collectDamages_concat length_concat comp_def)

lemma collectDamages_tags:
  "d \<in> set (collectDamages rs) \<Longrightarrow> \<exists>r \<in> set rs. TaggedDamage.frameIndex d = FrameAnalysisResult.frameIndex r"
  by (auto simp: collectDamages_concat tagDamage_frameIndex)

subsection \<open>One iteration and the loop\<close>

text \<open>
  The loop is a fold over the positions \<open>0, \<dots>, n - 1\<close>, so a fact about the state after
  \<open>n\<close> units is proved by induction on \<open>n\<close>, from what one iteration does to each field.
\<close>

lemma analyzeLoop_0: "analyzeLoop noun units invoke 0 st = (st, [])"
  by (simp add: analyzeLoop_def)

lemma analyzeLoop_Suc:
  "analyzeLoop noun units invoke (Suc n) st =
     analyzeUnit noun units invoke n (analyzeLoop noun units invoke n st)"
  by (simp add: analyzeLoop_def)

lemma analyzeUnit_snd:
  "snd (analyzeUnit noun units invoke i p) = snd p @ unitContext invoke units i"
  by (cases p) (simp add: Let_def unitContext_def unitData_def split: option.splits Payload.splits)

lemma analyzeUnit_console:
  "console (fst (analyzeUnit noun units invoke i p)) = console (fst p) @ unitLog noun invoke units i"
  by (cases p) (simp add: Let_def unitLog_def unitError_def split: option.splits Payload.splits)

lemma analyzeUnit_kept:
  "toasts (fst (analyzeUnit noun units invoke i p)) = toasts (fst p)"
  "combinedResults (fst (analyzeUnit noun units invoke i p)) = combinedResults (fst p)"
  "results (fst (analyzeUnit noun units invoke i p)) = results (fst p)"
  "uploadedImages (fst (analyzeUnit noun units invoke i p)) = uploadedImages (fst p)"
  "videoFrames (fst (analyzeUnit noun units invoke i p)) = videoFrames (fst p)"
  by (cases p; simp add: Let_def split: option.splits Payload.splits)+

lemma analyzeUnit_counter:
  "currentAnalyzingFrame (fst (analyzeUnit noun units invoke i p)) = i + 1"
  by (cases p) (simp add: Let_def split: option.splits Payload.splits)

lemma analyzeUnit_progress:
  "analysisProgress (fst (analyzeUnit noun units invoke i p)) =
     (if unitError invoke units i = None then (real (i + 1) / real (length units)) * 100
      else analysisProgress (fst p))"
  by (cases p) (auto simp add: Let_def unitError_def split: option.splits Payload.splits)

lemma analyzeLoop_snd:
  "snd (analyzeLoop noun units invoke n st) = concat (map (unitContext invoke units) [0..<n])"
  by (induction n) (simp_all add: analyzeLoop_0 analyzeLoop_Suc analyzeUnit_snd)

lemma analyzeLoop_console:
  "console (fst (analyzeLoop noun units invoke n st)) =
     console st @ concat (map (unitLog noun invoke units) [0..<n])"
  by (induction n) (simp_all add: analyzeLoop_0 analyzeLoop_Suc analyzeUnit_console)

lemma analyzeLoop_kept:
  "toasts (fst (analyzeLoop noun units invoke n st)) = toasts st"
  "combinedResults (fst (analyzeLoop noun units invoke n st)) = combinedResults st"
  "results (fst (analyzeLoop noun units invoke n st)) = results st"
  by (induction n; simp add: analyzeLoop_0 analyzeLoop_Suc analyzeUnit_kept)+

lemma analyzeLoop_counter:
  "0 < n \<Longrightarrow> currentAnalyzingFrame (fst (analyzeLoop noun units invoke n st)) = n"
  by (cases n) (simp_all add: analyzeLoop_Suc analyzeUnit_counter)

lemma frameIndex_contexts:
  "map FrameAnalysisResult.frameIndex (concat (map (unitContext invoke units) xs)) =
     filter (\<lambda>i. unitData invoke units i \<noteq> None) xs"
  by (induction xs) (auto simp: unitContext_def withFrame_fields split: option.splits)

lemma frameImage_contexts:
  "map frameImage (concat (map (unitContext invoke units) xs)) =
     map (\<lambda>i. units ! i) (filter (\<lambda>i. unitData invoke units i \<noteq> None) xs)"
  by (induction xs) (auto simp: unitContext_def withFrame_fields split: option.splits)

lemma contexts_empty_iff:
  "concat (map (unitContext invoke units) xs) = [] \<longleftrightarrow> (\<forall>i \<in> set xs. unitData invoke units i = None)"
  by (induction xs) (auto simp: unitContext_def split: option.splits)

lemma contexts_length:
  "length (concat (map (unitContext invoke units) xs)) = length (filter (\<lambda>i. unitData invoke units i \<noteq> None) xs)"
  by (induction xs) (auto simp: unitContext_def split: option.splits)

lemma analyzeLoop_frameIndex_bound:
  "r \<in> set (snd (analyzeLoop noun units invoke n st)) \<Longrightarrow> FrameAnalysisResult.frameIndex r < n"
proof -
  assume "r \<in> set (snd (analyzeLoop noun units invoke n st))"
  then have "FrameAnalysisResult.frameIndex r \<in>
      set (map FrameAnalysisResult.frameIndex (concat (map (unitContext invoke units) [0..<n])))"
    by (simp only: analyzeLoop_snd set_map) (rule imageI)
  then show ?thesis
    by (simp only: frameIndex_contexts) simp
qed

subsection \<open>The two batch runs\<close>

lemma analyzeAllImages_run:
  assumes "uploadedImages st \<noteq> []"
  shows "analyzeAllImages invoke st =
     (let st0 = st\<lparr> isAnalyzingAllImages := True, analysisProgress := 0,
                      currentAnalyzingFrame := 0, combinedResults := None, results := None \<rparr>;
          p = analyzeLoop ''image'' (uploadedImages st) invoke (length (uploadedImages st)) st0;
          st2 = (if snd p = []
                 then (fst p)\<lparr> toasts := toasts (fst p) @ [failureToast ''image''] \<rparr>
                 else (fst p)\<lparr> combinedResults := Some (combineImageResults (snd p)),
                         toasts := toasts (fst p) @
                          [\<lparr> title = ''Comprehensive Analysis Complete'',
                             toast_description =
                               ''Analyzed '' @ string_of_nat (length (snd p)) @
                               '' images. Found '' @ string_of_nat (length (allDamages (combineImageResults (snd p)))) @
                               '' total damage instances.'',
                             variant = Default \<rparr>] \<rparr>)
      in st2\<lparr> isAnalyzingAllImages := False, analysisProgress := 0, currentAnalyzingFrame := 0 \<rparr>)"
  using assms by (simp add: analyzeAllImages_def Let_def case_prod_beta failureToast_def)

lemma analyzeAllFrames_run:
  assumes "videoFrames st \<noteq> []"
  shows "analyzeAllFrames invoke st =
     (let st0 = st\<lparr> isAnalyzingAllFrames := True, analysisProgress := 0,
                      currentAnalyzingFrame := 0, combinedResults := None, results := None \<rparr>;
          p = analyzeLoop ''frame'' (videoFrames st) invoke (length (videoFrames st)) st0;
          st2 = (if snd p = []
                 then (fst p)\<lparr> toasts := toasts (fst p) @ [failureToast ''frame''] \<rparr>
                 else (fst p)\<lparr> combinedResults := Some (combineFrameResults (snd p)),
                         toasts := toasts (fst p) @
                          [\<lparr> title = ''Comprehensive Analysis Complete'',
                             toast_description =
                               ''Analyzed '' @ string_of_nat (length (snd p)) @
                               '' frames. Found '' @ string_of_nat (length (allDamages (combineFrameResults (snd p)))) @
                               '' total damage instances.'',
                             variant = Default \<rparr>] \<rparr>)
      in st2\<lparr> isAnalyzingAllFrames := False, analysisProgress := 0, currentAnalyzingFrame := 0 \<rparr>)"
  using assms by (simp add: analyzeAllFrames_def Let_def case_prod_beta failureToast_def)

lemma images_all_failed:
  assumes "uploadedImages st \<noteq> []"
    and "\<forall>i < length (uploadedImages st). unitData invoke (uploadedImages st) i = None"
  shows "combinedResults (analyzeAllImages invoke st) = None"
    and "results (analyzeAllImages invoke st) = None"
    and "toasts (analyzeAllImages invoke st) = toasts st @ [failureToast ''image'']"
    and "analysisProgress (analyzeAllImages invoke st) = 0"
    and "currentAnalyzingFrame (analyzeAllImages invoke st) = 0"
    and "\<not> isAnalyzingAllImages (analyzeAllImages invoke st)"
proof -
  have none: "snd (analyzeLoop ''image'' (uploadedImages st) invoke (length (uploadedImages st)) st0) = []" for st0
    using assms(2) by (simp only: analyzeLoop_snd contexts_empty_iff) simp
  show "combinedResults (analyzeAllImages invoke st) = None"
    and "results (analyzeAllImages invoke st) = None"
    and "toasts (analyzeAllImages invoke st) = toasts st @ [failureToast ''image'']"
    and "analysisProgress (analyzeAllImages invoke st) = 0"
    and "currentAnalyzingFrame (analyzeAllImages invoke st) = 0"
    and "\<not> isAnalyzingAllImages (analyzeAllImages invoke st)"
    using assms(1) by (simp_all add: analyzeAllImages_run Let_def none analyzeLoop_kept)
qed

lemma frames_all_failed:
  assumes "videoFrames st \<noteq> []"
    and "\<forall>i < length (videoFrames st). unitData invoke (videoFrames st) i = None"
  shows "combinedResults (analyzeAllFrames invoke st) = None"
    and "results (analyzeAllFrames invoke st) = None"
    and "toasts (analyzeAllFrames invoke st) = toasts st @ [failureToast ''frame'']"
    and "analysisProgress (analyzeAllFrames invoke st) = 0"
    and "currentAnalyzingFrame (analyzeAllFrames invoke st) = 0"
    and "\<not> isAnalyzingAllFrames (analyzeAllFrames invoke st)"
proof -
  have none: "snd (analyzeLoop ''frame'' (videoFrames st) invoke (length (videoFrames st)) st0) = []" for st0
    using assms(2) by (simp only: analyzeLoop_snd contexts_empty_iff) simp
  show "combinedResults (analyzeAllFrames invoke st) = None"
    and "results (analyzeAllFrames invoke st) = None"
    and "toasts (analyzeAllFrames invoke st) = toasts st @ [failureToast ''frame'']"
    and "analysisProgress (analyzeAllFrames invoke st) = 0"
    and "currentAnalyzingFrame (analyzeAllFrames invoke st) = 0"
    and "\<not> isAnalyzingAllFrames (analyzeAllFrames invoke st)"
    using assms(1) by (simp_all add: analyzeAllFrames_run Let_def none analyzeLoop_kept)
qed

lemma images_some_succeeded:
  assumes "succeededUnits invoke (uploadedImages st) \<noteq> []"
  shows "combinedResults (analyzeAllImages invoke st) =
           Some (combineImageResults (concat (map (unitContext invoke (uploadedImages st))
                                                 [0..<length (uploadedImages st)])))"
    and "console (analyzeAllImages invoke st) =
           console st @ concat (map (unitLog ''image'' invoke (uploadedImages st))
                                    [0..<length (uploadedImages st)])"
proof -
  from assms have ne: "uploadedImages st \<noteq> []"
    by (auto simp: succeededUnits_def)
  have "length (concat (map (unitContext invoke (uploadedImages st)) [0..<length (uploadedImages st)])) =
          length (succeededUnits invoke (uploadedImages st))"
    by (simp only: contexts_length succeededUnits_def)
  with assms have some: "concat (map (unitContext invoke (uploadedImages st))
                                   [0..<length (uploadedImages st)]) \<noteq> []"
    by (metis length_0_conv)
  show "combinedResults (analyzeAllImages invoke st) =
           Some (combineImageResults (concat (map (unitContext invoke (uploadedImages st))
                                                 [0..<length (uploadedImages st)])))"
    using ne some by (auto simp add: analyzeAllImages_run Let_def analyzeLoop_snd)
  show "console (analyzeAllImages invoke st) =
           console st @ concat (map (unitLog ''image'' invoke (uploadedImages st))
                                    [0..<length (uploadedImages st)])"
    using ne by (simp add: analyzeAllImages_run Let_def analyzeLoop_console)
qed

lemma frames_some_succeeded:
  assumes "succeededUnits invoke (videoFrames st) \<noteq> []"
  shows "combinedResults (analyzeAllFrames invoke st) =
           Some (combineFrameResults (concat (map (unitContext invoke (videoFrames st))
                                                 [0..<length (videoFrames st)])))"
    and "console (analyzeAllFrames invoke st) =
           console st @ concat (map (unitLog ''frame'' invoke (videoFrames st))
                                    [0..<length (videoFrames st)])"
proof -
  from assms have ne: "videoFrames st \<noteq> []"
    by (auto simp: succeededUnits_def)
  have "length (concat (map (unitContext invoke (videoFrames st)) [0..<length (videoFrames st)])) =
          length (succeededUnits invoke (videoFrames st))"
    by (simp only: contexts_length succeededUnits_def)
  with assms have some: "concat (map (unitContext invoke (videoFrames st))
                                   [0..<length (videoFrames st)]) \<noteq> []"
    by (metis length_0_conv)
  show "combinedResults (analyzeAllFrames invoke st) =
           Some (combineFrameResults (concat (map (unitContext invoke (videoFrames st))
                                                 [0..<length (videoFrames st)])))"
    using ne some by (auto simp add: analyzeAllFrames_run Let_def analyzeLoop_snd)
  show "console (analyzeAllFrames invoke st) =
           console st @ concat (map (unitLog ''frame'' invoke (videoFrames st))
                                    [0..<length (videoFrames st)])"
    using ne by (simp add: analyzeAllFrames_run Let_def analyzeLoop_console)
qed

subsection \<open>The parse stage of the handler\<close>

lemma parseAnalysis_failure:
  "JSON_parse (jsonStr s) = None \<Longrightarrow> parseAnalysis JSON_parse (Some s) = parseFallback"
  by (simp add: parseAnalysis_def)

lemma parseAnalysis_undefined:
  "parseAnalysis JSON_parse None = parseFallback"
  by (simp add: parseAnalysis_def)

lemma annotationStep_fallback: "annotationStep annotate parseFallback = None"
  by (simp add: annotationStep_def parseFallback_def)

lemma parseFallback_annotated: "parseFallback\<lparr> annotatedImage := None \<rparr> = parseFallback"
  by (simp add: parseFallback_def)

lemma handler_parse_failure:
  assumes "JSON_parse (jsonStr s) = None" and "\<not> falsy img" and "\<not> falsy key"
  shows "handler JSON_parse annotate (Body img) key (GatewayOk (Some s)) =
           \<lparr> status = 200, body = ResultJson parseFallback \<rparr>"
  using assms
  by (simp add: handler_def parseAnalysis_failure annotationStep_fallback parseFallback_annotated)

lemma parseFallback_fields:
  "hasVehicle parseFallback = False"
  "hasDamage parseFallback = False"
  "AnalysisResult.overallSeverity parseFallback = SevNone"
  "confidenceScore parseFallback = 0"
  "damages parseFallback = []"
  "AnalysisResult.affectedAreas parseFallback = []"
  "cost_min (AnalysisResult.estimatedRepairCost parseFallback) = 0"
  "cost_max (AnalysisResult.estimatedRepairCost parseFallback) = 0"
  "AnalysisResult.summary parseFallback = ''Could not process the image. Please upload a clear image.''"
  "annotatedImage parseFallback = None"
  by (simp_all add: parseFallback_def)

lemma parseFallback_currency: "currency (AnalysisResult.estimatedRepairCost parseFallback) = ''USD''"
  by (simp add: parseFallback_def)

lemma jsonStr_plain: "jsonStr ''not JSON'' = ''not JSON''"
  by (simp add: jsonStr_def jsonMatch_def)

lemma jsonStr_fenced: "jsonStr ''```json\<newline>not JSON\<newline>```'' = ''not JSON''"
  by (simp add: jsonStr_def jsonMatch_def trim_def js_space_def)

subsection \<open>The sample inputs, evaluated\<close>

lemmas sample_defs = scratchResult_def dentResult_def cleanResult_def sampleResult_def sampleDamage_def

lemma costUnits_min: "map (\<lambda>f. cost_min (AnalysisResult.estimatedRepairCost f)) costUnits = [5000, 25000]"
  by (simp add: costUnits_def withFrame_parent sample_defs)

lemma costUnits_max: "map (\<lambda>f. cost_max (AnalysisResult.estimatedRepairCost f)) costUnits = [25000, 100000]"
  by (simp add: costUnits_def withFrame_parent sample_defs)

lemma sampleUnits_sev: "map (\<lambda>r. severityOrder (AnalysisResult.overallSeverity r)) sampleUnits = [0, 1, 3]"
  by (simp add: sampleUnits_def withFrame_parent sample_defs)

lemma failingAt_simps:
  "error (failingAt bad r i img) = (if i \<in> set bad then Some ''Edge Function returned a non-2xx status code'' else None)"
  "data (failingAt bad r i img) = (if i \<in> set bad then None else Some (ResultPayload r))"
  by (simp_all add: failingAt_def)

lemma unitData_failingAt:
  "unitData (failingAt bad r) units i = (if i \<in> set bad then None else Some r)"
  by (simp add: unitData_def failingAt_simps)

lemma unitError_failingAt:
  "unitError (failingAt bad r) units i = (if i \<in> set bad then Some ''Edge Function returned a non-2xx status code'' else None)"
  by (simp add: unitError_def failingAt_simps)

lemma upt_2: "[0..<2] = [0, 1]" by code_simp

lemma upt_3: "[0..<3] = [0, 1, 2]" by code_simp

lemma upt_4: "[0..<4] = [0, 1, 2, 3]" by code_simp

lemma partialBatch_eq: "partialBatch = [withFrame scratchResult 1 ''img1'']"
  by (simp add: partialBatch_def analyzeLoop_snd upt_2 unitContext_def unitData_failingAt)

lemma succeeded_4: "succeededUnits (failingAt [1, 3] scratchResult) [''img0'', ''img1'', ''img2'', ''img3''] = [0, 2]"
  by (simp add: succeededUnits_def upt_4 unitData_failingAt)

section \<open>The claims\<close>

subsection \<open>C1: the cost roll-up\<close>

text \<open>
  Claim C1. For every non-empty sequence of unit results, the combined report's cost minimum
  is the largest of the units' cost minima and its cost maximum is the largest of the units'
  cost maxima, for both aggregators. On units with minima 5000 and 25000 and maxima 25000 and
  100000 the combined range is 25000 to 100000.
\<close>

theorem combined_cost_is_max_of_unit_costs:
  assumes "rs \<noteq> []"
  shows "cost_min (estimatedRepairCost (combineImageResults rs)) =
           Num (Max ((\<lambda>f. cost_min (AnalysisResult.estimatedRepairCost f)) ` set rs))
       \<and> cost_max (estimatedRepairCost (combineImageResults rs)) =
           Num (Max ((\<lambda>f. cost_max (AnalysisResult.estimatedRepairCost f)) ` set rs))
       \<and> cost_min (estimatedRepairCost (combineFrameResults rs)) =
           Num (Max ((\<lambda>f. cost_min (AnalysisResult.estimatedRepairCost f)) ` set rs))
       \<and> cost_max (estimatedRepairCost (combineFrameResults rs)) =
           Num (Max ((\<lambda>f. cost_max (AnalysisResult.estimatedRepairCost f)) ` set rs))"
  using assms
  by (simp add: combineImageResults_cost_min combineImageResults_cost_max
      combineFrameResults_cost_min combineFrameResults_cost_max Math_max_nonempty)

text \<open>The instance of the claim: \<open>costUnits\<close> has the ranges 5000 to 25000 and 25000 to 100000.\<close>

theorem combined_cost_is_max_of_unit_costs_witness:
  "costUnits \<noteq> []
 \<and> cost_min (estimatedRepairCost (combineImageResults costUnits)) = Num 25000
 \<and> cost_max (estimatedRepairCost (combineImageResults costUnits)) = Num 100000
 \<and> cost_min (estimatedRepairCost (combineFrameResults costUnits)) = Num 25000
 \<and> cost_max (estimatedRepairCost (combineFrameResults costUnits)) = Num 100000"
proof -
  have ne: "costUnits \<noteq> []" by (simp add: costUnits_def)
  have mn: "Max ((\<lambda>f. cost_min (AnalysisResult.estimatedRepairCost f)) ` set costUnits) = 25000"
    unfolding set_map [symmetric] costUnits_min by simp
  have mx: "Max ((\<lambda>f. cost_max (AnalysisResult.estimatedRepairCost f)) ` set costUnits) = 100000"
    unfolding set_map [symmetric] costUnits_max by simp
  from combined_cost_is_max_of_unit_costs [OF ne] ne show ?thesis
    by (simp only: mn mx) simp
qed

subsection \<open>C2: the severity roll-up\<close>

text \<open>
  Claim C2. For every non-empty sequence of unit results, the combined \<open>overallSeverity\<close> is
  the maximum of the units' severities in the order None, Minor, Moderate, Severe: its rank
  is the largest rank, it is the severity of some unit, no unit is more severe, and every
  reordering of the input gives the same value. Both aggregators return it.
\<close>

theorem combined_severity_is_max_of_unit_severities:
  assumes "rs \<noteq> []"
  shows "severityOrder (overallSeverity (combineImageResults rs)) =
           Max ((\<lambda>r. severityOrder (AnalysisResult.overallSeverity r)) ` set rs)
       \<and> overallSeverity (combineImageResults rs) \<in> AnalysisResult.overallSeverity ` set rs
       \<and> (\<forall>r \<in> set rs. severityOrder (AnalysisResult.overallSeverity r)
             \<le> severityOrder (overallSeverity (combineImageResults rs)))
       \<and> (\<forall>rs'. mset rs' = mset rs \<longrightarrow>
             overallSeverity (combineImageResults rs') = overallSeverity (combineImageResults rs))
       \<and> overallSeverity (combineFrameResults rs) = overallSeverity (combineImageResults rs)"
  using assms
  by (auto simp: combine_severity reduceSeverity_rank reduceSeverity_mem
      intro: reduceSeverity_mset)

text \<open>The instance: a clean unit, a Minor scratch and a Severe dent combine to Severe.\<close>

theorem combined_severity_is_max_of_unit_severities_witness:
  "sampleUnits \<noteq> []
 \<and> severityOrder (overallSeverity (combineImageResults sampleUnits)) = severityOrder Severe
 \<and> overallSeverity (combineImageResults (rev sampleUnits)) = overallSeverity (combineImageResults sampleUnits)
 \<and> overallSeverity (combineFrameResults sampleUnits) = overallSeverity (combineImageResults sampleUnits)"
proof -
  have ne: "sampleUnits \<noteq> []" by (simp add: sampleUnits_def)
  have perm: "mset (rev sampleUnits) = mset sampleUnits" by simp
  note c2 = combined_severity_is_max_of_unit_severities [OF ne]
  from c2 have
    a: "severityOrder (overallSeverity (combineImageResults sampleUnits)) =
           Max ((\<lambda>r. severityOrder (AnalysisResult.overallSeverity r)) ` set sampleUnits)"
    by (rule conjunct1)
  from c2 have b: "\<forall>rs'. mset rs' = mset sampleUnits \<longrightarrow>
             overallSeverity (combineImageResults rs') = overallSeverity (combineImageResults sampleUnits)"
    by (elim conjE)
  from c2 have c: "overallSeverity (combineFrameResults sampleUnits) = overallSeverity (combineImageResults sampleUnits)"
    by (elim conjE)
  have m: "Max ((\<lambda>r. severityOrder (AnalysisResult.overallSeverity r)) ` set sampleUnits) = 3"
    unfolding set_map [symmetric] sampleUnits_sev by simp
  from b perm have d: "overallSeverity (combineImageResults (rev sampleUnits)) = overallSeverity (combineImageResults sampleUnits)"
    by blast
  show ?thesis
    using ne a c d by (simp only: m) simp
qed

subsection \<open>C3: the flattened list of damages\<close>

text \<open>
  Claim C3 says that every damage in \<open>allDamages\<close> carries an index below the length of the
  sequence passed to the aggregator. The tag is the unit's position in the submitted batch,
  which the loop keeps when earlier units fail: in a batch of two whose first unit fails, the
  aggregator receives one unit, and its damage carries the tag 1.
\<close>

theorem damage_tag_outside_aggregator_input:
  "partialBatch \<noteq> []
 \<and> length partialBatch = 1
 \<and> map TaggedDamage.frameIndex (allDamages (combineImageResults partialBatch)) = [1]
 \<and> \<not> (TaggedDamage.frameIndex (hd (allDamages (combineImageResults partialBatch))) < length partialBatch)"
proof -
  have ad: "allDamages (combineImageResults partialBatch) =
      [tagDamage 1 (sampleDamage ''scratch'' ''left door'' DMinor)]"
    by (simp add: partialBatch_eq combine_allDamages collectDamages_concat withFrame_fields
        scratchResult_def sampleResult_def)
  show ?thesis
    by (simp add: ad tagDamage_frameIndex) (simp add: partialBatch_eq)
qed

text \<open>
  Claim C3 as amended. \<open>allDamages\<close> has as many entries as the units have damages in
  total, and every entry carries the \<open>frameIndex\<close> of a unit of the input. When the input
  is what the loop collected from a batch of submitted units, every tag is a valid index into
  the submitted batch.
\<close>

theorem damage_tags_index_submitted_batch:
  "length (allDamages (combineImageResults rs)) = sum_list (map (\<lambda>r. length (damages r)) rs)
 \<and> length (allDamages (combineFrameResults rs)) = sum_list (map (\<lambda>r. length (damages r)) rs)
 \<and> (\<forall>d \<in> set (allDamages (combineImageResults rs)).
       \<exists>r \<in> set rs. TaggedDamage.frameIndex d = FrameAnalysisResult.frameIndex r)
 \<and> (\<forall>d \<in> set (allDamages (combineFrameResults rs)).
       \<exists>r \<in> set rs. TaggedDamage.frameIndex d = FrameAnalysisResult.frameIndex r)
 \<and> (\<forall>d \<in> set (allDamages (combineImageResults
                    (snd (analyzeLoop noun units invoke (length units) st)))).
       TaggedDamage.frameIndex d < length units)
 \<and> (\<forall>d \<in> set (allDamages (combineFrameResults
                    (snd (analyzeLoop noun units invoke (length units) st)))).
       TaggedDamage.frameIndex d < length units)"
  by (auto simp: combine_allDamages length_collectDamages
      dest!: collectDamages_tags dest: analyzeLoop_frameIndex_bound)

text \<open>The instance: the batch of two above; the single tag is below 2.\<close>

theorem damage_tags_index_submitted_batch_witness:
  "hd (allDamages (combineImageResults partialBatch)) \<in> set (allDamages (combineImageResults partialBatch))
 \<and> length (allDamages (combineImageResults partialBatch)) = 1
 \<and> TaggedDamage.frameIndex (hd (allDamages (combineImageResults partialBatch))) < length [''img0'', ''img1'']"
proof -
  have ad: "allDamages (combineImageResults partialBatch) =
      [tagDamage 1 (sampleDamage ''scratch'' ''left door'' DMinor)]"
    by (simp add: partialBatch_eq combine_allDamages collectDamages_concat withFrame_fields
        scratchResult_def sampleResult_def)
  have mem: "hd (allDamages (combineImageResults partialBatch))
               \<in> set (allDamages (combineImageResults partialBatch))"
    by (simp add: ad)
  have len: "sum_list (map (\<lambda>r. length (damages r)) partialBatch) = 1"
    by (simp add: partialBatch_eq withFrame_fields scratchResult_def sampleResult_def)
  note c3 = damage_tags_index_submitted_batch [of partialBatch "''image''" "[''img0'', ''img1'']" "failingAt [0] scratchResult"
      "sampleState [''img0'', ''img1'']"]
  from c3 have l: "length (allDamages (combineImageResults partialBatch)) =
      sum_list (map (\<lambda>r. length (damages r)) partialBatch)"
    by (rule conjunct1)
  from c3 have "\<forall>d \<in> set (allDamages (combineImageResults
                    (snd (analyzeLoop ''image'' [''img0'', ''img1''] (failingAt [0] scratchResult)
                       (length [''img0'', ''img1'']) (sampleState [''img0'', ''img1'']))))).
       TaggedDamage.frameIndex d < length [''img0'', ''img1'']"
    by (elim conjE)
  then have "\<forall>d \<in> set (allDamages (combineImageResults partialBatch)).
       TaggedDamage.frameIndex d < length [''img0'', ''img1'']"
    by (simp add: partialBatch_def numeral_2_eq_2)
  from this mem have "TaggedDamage.frameIndex (hd (allDamages (combineImageResults partialBatch)))
       < length [''img0'', ''img1'']"
    by (rule bspec)
  with mem l len show ?thesis by simp
qed

subsection \<open>C4: progress after each unit\<close>

text \<open>
  Claim C4 says that the progress percentage is updated after every unit, failed or not, so
  that it reflects all attempts after the last one. The branch for an \<open>error\<close> leaves the
  iteration with \<^verbatim>\<open>continue\<close> before \<^verbatim>\<open>setAnalysisProgress\<close>: in a batch of two whose second
  unit fails, the counter reaches 2 and the percentage stays at 50. A unit that answers
  without usable data takes the other branch and does update the percentage
  (\<open>analyzeUnit_progress\<close>).
\<close>

theorem progress_skipped_on_invoke_error:
  "currentAnalyzingFrame (fst (analyzeLoop ''image'' [''img0'', ''img1''] (failingAt [1] scratchResult) 2
       (sampleState [''img0'', ''img1'']))) = 2
 \<and> analysisProgress (fst (analyzeLoop ''image'' [''img0'', ''img1''] (failingAt [1] scratchResult) 2
       (sampleState [''img0'', ''img1'']))) = 50
 \<and> analysisProgress (fst (analyzeLoop ''image'' [''img0'', ''img1''] (failingAt [1] scratchResult) 2
       (sampleState [''img0'', ''img1''])))
     \<noteq> (real 2 / real (length [''img0'', ''img1''])) * 100"
  by (simp add: numeral_2_eq_2 analyzeLoop_Suc analyzeLoop_0 analyzeUnit_counter analyzeUnit_progress
      unitError_failingAt del: analyzeUnit.simps)

subsection \<open>C5: partial failure\<close>

text \<open>
  Claim C5. When at least one unit of a batch succeeds, the run ends with a combined report
  whose units are exactly the succeeded ones, in order, each with its original position as
  \<open>frameIndex\<close> and its own image, and whose \<open>totalFramesAnalyzed\<close> is their number; the
  console holds one line for each unit whose call returned an \<open>error\<close>, whatever its
  position in the batch. This holds for the image run and for the frame run.
\<close>

theorem partial_failure_keeps_positions:
  "(succeededUnits invoke (uploadedImages st) \<noteq> [] \<longrightarrow>
      (\<exists>c. combinedResults (analyzeAllImages invoke st) = Some c
          \<and> map FrameAnalysisResult.frameIndex (frameResults c) = succeededUnits invoke (uploadedImages st)
          \<and> map frameImage (frameResults c) =
              map (\<lambda>i. uploadedImages st ! i) (succeededUnits invoke (uploadedImages st))
          \<and> totalFramesAnalyzed c = length (succeededUnits invoke (uploadedImages st)))
      \<and> console (analyzeAllImages invoke st) =
          console st @ concat (map (unitLog ''image'' invoke (uploadedImages st))
                                   [0..<length (uploadedImages st)]))
 \<and> (succeededUnits invoke (videoFrames st) \<noteq> [] \<longrightarrow>
      (\<exists>c. combinedResults (analyzeAllFrames invoke st) = Some c
          \<and> map FrameAnalysisResult.frameIndex (frameResults c) = succeededUnits invoke (videoFrames st)
          \<and> map frameImage (frameResults c) =
              map (\<lambda>i. videoFrames st ! i) (succeededUnits invoke (videoFrames st))
          \<and> totalFramesAnalyzed c = length (succeededUnits invoke (videoFrames st)))
      \<and> console (analyzeAllFrames invoke st) =
          console st @ concat (map (unitLog ''frame'' invoke (videoFrames st))
                                   [0..<length (videoFrames st)]))"
  by (simp add: images_some_succeeded frames_some_succeeded combine_frameResults
      frameIndex_contexts frameImage_contexts contexts_length succeededUnits_def)

text \<open>The instance: four images, the calls at positions 1 and 3 fail.\<close>

theorem partial_failure_keeps_positions_witness:
  "succeededUnits (failingAt [1, 3] scratchResult)
      (uploadedImages (sampleState [''img0'', ''img1'', ''img2'', ''img3''])) = [0, 2]
 \<and> map_option totalFramesAnalyzed
      (combinedResults (analyzeAllImages (failingAt [1, 3] scratchResult)
         (sampleState [''img0'', ''img1'', ''img2'', ''img3'']))) = Some 2
 \<and> map_option (\<lambda>c. map FrameAnalysisResult.frameIndex (frameResults c))
      (combinedResults (analyzeAllImages (failingAt [1, 3] scratchResult)
         (sampleState [''img0'', ''img1'', ''img2'', ''img3'']))) = Some [0, 2]
 \<and> map_option (\<lambda>c. map frameImage (frameResults c))
      (combinedResults (analyzeAllImages (failingAt [1, 3] scratchResult)
         (sampleState [''img0'', ''img1'', ''img2'', ''img3'']))) = Some [''img0'', ''img2'']
 \<and> map fst (console (analyzeAllImages (failingAt [1, 3] scratchResult)
         (sampleState [''img0'', ''img1'', ''img2'', ''img3'']))) =
      [''Error analyzing image 2:'', ''Error analyzing image 4:'']"
proof -
  let ?st = "sampleState [''img0'', ''img1'', ''img2'', ''img3'']"
  let ?inv = "failingAt [1, 3] scratchResult"
  have imgs: "uploadedImages ?st = [''img0'', ''img1'', ''img2'', ''img3'']"
    by (simp add: sampleState_def)
  have con: "console ?st = []"
    by (simp add: sampleState_def)
  have s: "succeededUnits ?inv (uploadedImages ?st) = [0, 2]"
    by (simp only: imgs succeeded_4)
  then have ne: "succeededUnits ?inv (uploadedImages ?st) \<noteq> []" by simp
  have logs: "concat (map (unitLog ''image'' ?inv (uploadedImages ?st)) [0..<length (uploadedImages ?st)])
     = [(''Error analyzing image 2:'', ''Edge Function returned a non-2xx status code''),
        (''Error analyzing image 4:'', ''Edge Function returned a non-2xx status code'')]"
    by (simp add: imgs upt_4 unitLog_def unitError_failingAt string_of_nat.simps digit_char_def)
  from partial_failure_keeps_positions [of ?inv ?st] ne obtain c where
    c: "combinedResults (analyzeAllImages ?inv ?st) = Some c"
      "map FrameAnalysisResult.frameIndex (frameResults c) = succeededUnits ?inv (uploadedImages ?st)"
      "map frameImage (frameResults c) =
              map (\<lambda>i. uploadedImages ?st ! i) (succeededUnits ?inv (uploadedImages ?st))"
      "totalFramesAnalyzed c = length (succeededUnits ?inv (uploadedImages ?st))"
    and l: "console (analyzeAllImages ?inv ?st) =
          console ?st @ concat (map (unitLog ''image'' ?inv (uploadedImages ?st))
                                   [0..<length (uploadedImages ?st)])"
    by blast
  from l have l': "console (analyzeAllImages ?inv ?st) =
       [(''Error analyzing image 2:'', ''Edge Function returned a non-2xx status code''),
        (''Error analyzing image 4:'', ''Edge Function returned a non-2xx status code'')]"
    by (simp only: logs con append_Nil)
  from c(2) have fi: "map FrameAnalysisResult.frameIndex (frameResults c) = [0, 2]"
    by (simp only: s)
  from c(3) have "map frameImage (frameResults c) = map (\<lambda>i. [''img0'', ''img1'', ''img2'', ''img3''] ! i) [0, 2]"
    by (simp only: imgs succeeded_4)
  then have im: "map frameImage (frameResults c) = [''img0'', ''img2'']"
    by simp
  from c(4) have tot: "totalFramesAnalyzed c = 2"
    by (simp only: s) simp
  show ?thesis
    by (simp only: s c(1) fi im tot l' option.map list.map fst_conv simp_thms)
qed

subsection \<open>C6: total failure\<close>

text \<open>
  Claim C6. When no unit of a non-empty batch delivers a result, the run ends without a
  combined report: \<open>combinedResults\<close> and \<open>results\<close> stay cleared, and the only notice
  added is the batch-level failure notice. This holds for the image run and for the frame run.
\<close>

theorem all_units_failed_no_report:
  "(uploadedImages st \<noteq> [] \<and>
    (\<forall>i < length (uploadedImages st). unitData invoke (uploadedImages st) i = None) \<longrightarrow>
      combinedResults (analyzeAllImages invoke st) = None
    \<and> results (analyzeAllImages invoke st) = None
    \<and> toasts (analyzeAllImages invoke st) = toasts st @ [failureToast ''image''])
 \<and> (videoFrames st \<noteq> [] \<and>
    (\<forall>i < length (videoFrames st). unitData invoke (videoFrames st) i = None) \<longrightarrow>
      combinedResults (analyzeAllFrames invoke st) = None
    \<and> results (analyzeAllFrames invoke st) = None
    \<and> toasts (analyzeAllFrames invoke st) = toasts st @ [failureToast ''frame''])"
  by (simp add: images_all_failed frames_all_failed)

text \<open>The instance: three units, every call fails.\<close>

theorem all_units_failed_no_report_witness:
  "uploadedImages (sampleState [''img0'', ''img1'', ''img2'']) \<noteq> []
 \<and> map (unitData (failingAt [0, 1, 2] scratchResult) [''img0'', ''img1'', ''img2'']) [0, 1, 2] = [None, None, None]
 \<and> combinedResults (analyzeAllImages (failingAt [0, 1, 2] scratchResult)
       (sampleState [''img0'', ''img1'', ''img2''])) = None
 \<and> toasts (analyzeAllImages (failingAt [0, 1, 2] scratchResult)
       (sampleState [''img0'', ''img1'', ''img2''])) = [failureToast ''image'']
 \<and> combinedResults (analyzeAllFrames (failingAt [0, 1, 2] scratchResult)
       (sampleState [''img0'', ''img1'', ''img2''])) = None
 \<and> toasts (analyzeAllFrames (failingAt [0, 1, 2] scratchResult)
       (sampleState [''img0'', ''img1'', ''img2''])) = [failureToast ''frame'']"
proof -
  let ?st = "sampleState [''img0'', ''img1'', ''img2'']"
  let ?inv = "failingAt [0, 1, 2] scratchResult"
  have imgs: "uploadedImages ?st = [''img0'', ''img1'', ''img2'']"
    and frs: "videoFrames ?st = [''img0'', ''img1'', ''img2'']"
    and ts: "toasts ?st = []"
    by (simp_all add: sampleState_def)
  have h1: "uploadedImages ?st \<noteq> [] \<and>
    (\<forall>i < length (uploadedImages ?st). unitData ?inv (uploadedImages ?st) i = None)"
    by (simp add: imgs unitData_failingAt)
  have h2: "videoFrames ?st \<noteq> [] \<and>
    (\<forall>i < length (videoFrames ?st). unitData ?inv (videoFrames ?st) i = None)"
    by (simp add: frs unitData_failingAt)
  from all_units_failed_no_report [of ?st ?inv] h1 h2 show ?thesis
    by (simp add: ts imgs unitData_failingAt)
qed

subsection \<open>C7: a message that is not JSON\<close>

text \<open>
  Claim C7. When the gateway answers successfully and the message content, after the fence
  is stripped, does not parse, the handler answers with status 200 and the fixed fallback
  result: confidence 0, no vehicle, no damage, severity None, no damages, no affected areas,
  a cost range of 0 to 0, the could-not-process summary and no annotated image.
\<close>

theorem malformed_content_gives_fallback:
  assumes "JSON_parse (jsonStr s) = None" and "\<not> falsy img" and "\<not> falsy key"
  shows "\<exists>r. handler JSON_parse annotate (Body img) key (GatewayOk (Some s)) =
             \<lparr> status = 200, body = ResultJson r \<rparr>
           \<and> confidenceScore r = 0
           \<and> hasVehicle r = False
           \<and> hasDamage r = False
           \<and> AnalysisResult.overallSeverity r = SevNone
           \<and> damages r = []
           \<and> AnalysisResult.affectedAreas r = []
           \<and> cost_min (AnalysisResult.estimatedRepairCost r) = 0
           \<and> cost_max (AnalysisResult.estimatedRepairCost r) = 0
           \<and> AnalysisResult.summary r = ''Could not process the image. Please upload a clear image.''
           \<and> annotatedImage r = None"
  using assms by (simp add: handler_parse_failure parseFallback_fields)

text \<open>The instance: the content \<^verbatim>\<open>not JSON\<close>.\<close>

theorem malformed_content_gives_fallback_witness:
  "sampleJSON_parse (jsonStr ''not JSON'') = None
 \<and> \<not> falsy (Some ''data:image/jpeg;base64,AAAA'')
 \<and> \<not> falsy (Some ''secret'')
 \<and> status (handler sampleJSON_parse (\<lambda>r. None) (Body (Some ''data:image/jpeg;base64,AAAA''))
       (Some ''secret'') (GatewayOk (Some ''not JSON''))) = 200
 \<and> body (handler sampleJSON_parse (\<lambda>r. None) (Body (Some ''data:image/jpeg;base64,AAAA''))
       (Some ''secret'') (GatewayOk (Some ''not JSON''))) = ResultJson parseFallback"
proof -
  have h1: "sampleJSON_parse (jsonStr ''not JSON'') = None"
    by (simp add: jsonStr_plain sampleJSON_parse_def)
  have h2: "\<not> falsy (Some ''data:image/jpeg;base64,AAAA'')"
    and h3: "\<not> falsy (Some ''secret'')"
    by (simp_all add: falsy_def)
  note inst = malformed_content_gives_fallback [where JSON_parse = sampleJSON_parse and s = "''not JSON''"
      and img = "Some ''data:image/jpeg;base64,AAAA''" and key = "Some ''secret''"
      and annotate = "\<lambda>r. None"]
  from inst h1 h2 h3 obtain r where
    r: "handler sampleJSON_parse (\<lambda>r. None) (Body (Some ''data:image/jpeg;base64,AAAA''))
       (Some ''secret'') (GatewayOk (Some ''not JSON'')) = \<lparr> status = 200, body = ResultJson r \<rparr>"
    and f: "confidenceScore r = 0" "hasVehicle r = False" "hasDamage r = False"
      "AnalysisResult.overallSeverity r = SevNone" "damages r = []"
      "AnalysisResult.affectedAreas r = []"
      "cost_min (AnalysisResult.estimatedRepairCost r) = 0"
      "cost_max (AnalysisResult.estimatedRepairCost r) = 0"
      "AnalysisResult.summary r = ''Could not process the image. Please upload a clear image.''"
      "annotatedImage r = None"
    by blast
  have "handler sampleJSON_parse (\<lambda>r. None) (Body (Some ''data:image/jpeg;base64,AAAA''))
       (Some ''secret'') (GatewayOk (Some ''not JSON'')) = \<lparr> status = 200, body = ResultJson parseFallback \<rparr>"
    using h1 h2 h3 by (simp add: handler_parse_failure)
  with r have "r = parseFallback" by simp
  with r h1 h2 h3 show ?thesis by simp
qed

subsection \<open>C8: the currency of the fallback\<close>

text \<open>
  Claim C8 says that every result carries the currency code INR, the fallback included. The
  prompt of the handler asks for INR and the aggregators default to INR, but the fallback
  object is written with USD: on the content \<^verbatim>\<open>not JSON\<close> the handler answers with a
  result whose currency is USD.
\<close>

theorem fallback_currency_is_USD:
  "body (handler sampleJSON_parse (\<lambda>r. None) (Body (Some ''data:image/jpeg;base64,AAAA''))
       (Some ''secret'') (GatewayOk (Some ''not JSON''))) = ResultJson parseFallback
 \<and> currency (AnalysisResult.estimatedRepairCost parseFallback) = ''USD''
 \<and> currency (AnalysisResult.estimatedRepairCost parseFallback) \<noteq> ''INR''"
proof -
  have h1: "sampleJSON_parse (jsonStr ''not JSON'') = None"
    by (simp add: jsonStr_plain sampleJSON_parse_def)
  have h2: "\<not> falsy (Some ''data:image/jpeg;base64,AAAA'')"
    and h3: "\<not> falsy (Some ''secret'')"
    by (simp_all add: falsy_def)
  show ?thesis
    using h1 h2 h3 by (simp add: handler_parse_failure parseFallback_currency)
qed

subsection \<open>C9: the two aggregators\<close>

text \<open>
  Claim C9. On every input, \<open>combineImageResults\<close> and \<open>combineFrameResults\<close> return the
  same value in every field except \<open>summary\<close>.
\<close>

theorem aggregators_agree_except_summary:
  "totalFramesAnalyzed (combineImageResults rs) = totalFramesAnalyzed (combineFrameResults rs)
 \<and> framesWithDamage (combineImageResults rs) = framesWithDamage (combineFrameResults rs)
 \<and> overallSeverity (combineImageResults rs) = overallSeverity (combineFrameResults rs)
 \<and> averageConfidence (combineImageResults rs) = averageConfidence (combineFrameResults rs)
 \<and> allDamages (combineImageResults rs) = allDamages (combineFrameResults rs)
 \<and> uniqueDamageTypes (combineImageResults rs) = uniqueDamageTypes (combineFrameResults rs)
 \<and> affectedAreas (combineImageResults rs) = affectedAreas (combineFrameResults rs)
 \<and> estimatedRepairCost (combineImageResults rs) = estimatedRepairCost (combineFrameResults rs)
 \<and> recommendations (combineImageResults rs) = recommendations (combineFrameResults rs)
 \<and> frameResults (combineImageResults rs) = frameResults (combineFrameResults rs)"
  by (simp add: combineImageResults_def combineFrameResults_def Let_def)

subsection \<open>C10: the combined range is ordered when the unit ranges are\<close>

text \<open>
  Claim C10. For every non-empty input whose units all have a cost minimum at most their cost
  maximum, the combined minimum is at most the combined maximum; and a combined range with
  the minimum above the maximum arises only when some unit has its minimum above its maximum.
\<close>

theorem combined_cost_range_ordered:
  assumes "rs \<noteq> []"
  shows "((\<forall>r \<in> set rs. cost_min (AnalysisResult.estimatedRepairCost r)
                        \<le> cost_max (AnalysisResult.estimatedRepairCost r)) \<longrightarrow>
          js_le (cost_min (estimatedRepairCost (combineImageResults rs)))
                (cost_max (estimatedRepairCost (combineImageResults rs)))
        \<and> js_le (cost_min (estimatedRepairCost (combineFrameResults rs)))
                (cost_max (estimatedRepairCost (combineFrameResults rs))))
       \<and> (\<not> js_le (cost_min (estimatedRepairCost (combineImageResults rs)))
                  (cost_max (estimatedRepairCost (combineImageResults rs))) \<longrightarrow>
          (\<exists>r \<in> set rs. cost_max (AnalysisResult.estimatedRepairCost r)
                         < cost_min (AnalysisResult.estimatedRepairCost r)))
       \<and> (\<not> js_le (cost_min (estimatedRepairCost (combineFrameResults rs)))
                  (cost_max (estimatedRepairCost (combineFrameResults rs))) \<longrightarrow>
          (\<exists>r \<in> set rs. cost_max (AnalysisResult.estimatedRepairCost r)
                         < cost_min (AnalysisResult.estimatedRepairCost r)))"
proof -
  have key: "(\<forall>r \<in> set rs. cost_min (AnalysisResult.estimatedRepairCost r)
                        \<le> cost_max (AnalysisResult.estimatedRepairCost r)) \<Longrightarrow>
    Max ((\<lambda>f. cost_min (AnalysisResult.estimatedRepairCost f)) ` set rs)
      \<le> Max ((\<lambda>f. cost_max (AnalysisResult.estimatedRepairCost f)) ` set rs)"
    using assms by (intro Max_image_mono) auto
  show ?thesis
    using assms key
    by (simp add: combineImageResults_cost_min combineImageResults_cost_max
      combineFrameResults_cost_min combineFrameResults_cost_max Math_max_nonempty)
       (meson not_le)
qed

text \<open>The instance: the two ordered ranges of \<open>costUnits\<close>.\<close>

theorem combined_cost_range_ordered_witness:
  "costUnits \<noteq> []
 \<and> js_le (cost_min (estimatedRepairCost (combineImageResults costUnits)))
         (cost_max (estimatedRepairCost (combineImageResults costUnits)))
 \<and> js_le (cost_min (estimatedRepairCost (combineFrameResults costUnits)))
         (cost_max (estimatedRepairCost (combineFrameResults costUnits)))"
proof -
  have ne: "costUnits \<noteq> []" by (simp add: costUnits_def)
  have ok: "\<forall>r \<in> set costUnits. cost_min (AnalysisResult.estimatedRepairCost r)
                        \<le> cost_max (AnalysisResult.estimatedRepairCost r)"
    by (simp add: costUnits_def withFrame_parent sample_defs)
  from combined_cost_range_ordered [OF ne] have "(\<forall>r \<in> set costUnits. cost_min (AnalysisResult.estimatedRepairCost r)
                        \<le> cost_max (AnalysisResult.estimatedRepairCost r)) \<longrightarrow>
          js_le (cost_min (estimatedRepairCost (combineImageResults costUnits)))
                (cost_max (estimatedRepairCost (combineImageResults costUnits)))
        \<and> js_le (cost_min (estimatedRepairCost (combineFrameResults costUnits)))
                (cost_max (estimatedRepairCost (combineFrameResults costUnits)))"
    by (rule conjunct1)
  with ok ne show ?thesis by (simp only: simp_thms)
qed

end
